theory Spec2Isabelle
  imports Main
begin

section \<open>The classifier gateway: src/ai/flows/suggest-bottle-type.ts\<close>

subsection \<open>Schemas\<close>

text \<open>
  \<^verbatim>\<open>validationStep: z.enum(['identify', 'confirm'])\<close> of the input schema. The page has a
  type of the same name with a third value, so the two constructors here carry a prefix.
\<close>

datatype StepInput = step_identify | step_confirm

record SuggestBottleTypeInput =
  photoDataUri :: string
  inputValidationStep :: StepInput

text \<open>An element of \<^verbatim>\<open>suggestions\<close>: \<^verbatim>\<open>z.object({type: z.string()})\<close>.\<close>

datatype Suggestion = Suggestion (suggestion_type: string)

text \<open>
  \<^verbatim>\<open>SuggestBottleTypeOutput\<close>: \<^verbatim>\<open>suggestions\<close> is optional (\<open>None\<close> is the absent field),
  the two flags are required booleans.
\<close>

record SuggestBottleTypeOutput =
  suggestions :: "Suggestion list option"
  isPlasticBottle :: bool
  isDeposited :: bool

text \<open>
  A decoded reply of the model, before it is checked against the output schema.
  Objects are association lists from field names to values.
\<close>

datatype json =
    JNull
  | JBool bool
  | JNum int
  | JStr string
  | JArr "json list"
  | JObj "(string \<times> json) list"

text \<open>\<^verbatim>\<open>z.object({type: z.string()})\<close>\<close>

fun SuggestionSchema :: "json \<Rightarrow> Suggestion option" where
  "SuggestionSchema (JObj members) =
     (case map_of members ''type'' of
        Some (JStr s) \<Rightarrow> Some (Suggestion s)
      | _ \<Rightarrow> None)"
| "SuggestionSchema _ = None"

text \<open>\<^verbatim>\<open>z.array(...)\<close>: every element has to conform.\<close>

fun SuggestionArraySchema :: "json list \<Rightarrow> Suggestion list option" where
  "SuggestionArraySchema [] = Some []"
| "SuggestionArraySchema (j # js) =
     (case SuggestionSchema j of
        None \<Rightarrow> None
      | Some x \<Rightarrow>
          (case SuggestionArraySchema js of
             None \<Rightarrow> None
           | Some xs \<Rightarrow> Some (x # xs)))"

text \<open>\<^verbatim>\<open>.optional()\<close>: an absent field is accepted, a present one has to be an array.\<close>

fun OptionalSuggestionsSchema :: "json option \<Rightarrow> Suggestion list option option" where
  "OptionalSuggestionsSchema None = Some None"
| "OptionalSuggestionsSchema (Some (JArr js)) =
     (case SuggestionArraySchema js of
        None \<Rightarrow> None
      | Some xs \<Rightarrow> Some (Some xs))"
| "OptionalSuggestionsSchema (Some _) = None"

text \<open>\<^verbatim>\<open>z.boolean()\<close> on a required field.\<close>

fun BooleanSchema :: "json option \<Rightarrow> bool option" where
  "BooleanSchema (Some (JBool b)) = Some b"
| "BooleanSchema _ = None"

text \<open>\<^verbatim>\<open>SuggestBottleTypeOutputSchema\<close> (lines 24 to 35): \<open>None\<close> is a validation failure.\<close>

fun SuggestBottleTypeOutputSchema :: "json \<Rightarrow> SuggestBottleTypeOutput option" where
  "SuggestBottleTypeOutputSchema (JObj members) =
     (case OptionalSuggestionsSchema (map_of members ''suggestions'') of
        None \<Rightarrow> None
      | Some sugg \<Rightarrow>
          (case BooleanSchema (map_of members ''isPlasticBottle'') of
             None \<Rightarrow> None
           | Some pb \<Rightarrow>
               (case BooleanSchema (map_of members ''isDeposited'') of
                  None \<Rightarrow> None
                | Some dep \<Rightarrow>
                    Some \<lparr>suggestions = sugg, isPlasticBottle = pb, isDeposited = dep\<rparr>)))"
| "SuggestBottleTypeOutputSchema _ = None"

subsection \<open>The external service and the two prompts\<close>

text \<open>The two prompts of the file, by their \<^verbatim>\<open>name\<close> field.\<close>

datatype Prompt = identifyBottlePrompt | confirmDepositPrompt

text \<open>Modelled from the spec: the behaviour of the external classification service on one
  request. The \<^verbatim>\<open>ai\<close> instance (\<^verbatim>\<open>@/ai/genkit\<close>) and the model behind it are not among the
  sources; the spec names three ways a call can fail (service unreachable, output that
  does not parse against the result shape, timeout), and otherwise the service replies.
\<close>

datatype ServiceReply = Unreachable | TimedOut | Replied json

datatype ServiceError = ServiceUnreachable | ServiceTimeout | MalformedOutput

text \<open>
  What awaiting a prompt gives the flow body: an exception, or an object whose
  \<^verbatim>\<open>output\<close> field may be null (the flow writes \<^verbatim>\<open>output!\<close>).
\<close>

datatype PromptResult = Throws ServiceError | Returns "SuggestBottleTypeOutput option"

text \<open>Modelled from the spec: a prompt made by \<^verbatim>\<open>ai.definePrompt\<close> with
  \<^verbatim>\<open>output: {schema: SuggestBottleTypeOutputSchema}\<close>. The reply of the service is checked
  against the output schema; a reply that does not conform leaves \<^verbatim>\<open>output\<close> null.
\<close>

fun runPrompt :: "ServiceReply \<Rightarrow> PromptResult" where
  "runPrompt Unreachable = Throws ServiceUnreachable"
| "runPrompt TimedOut = Throws ServiceTimeout"
| "runPrompt (Replied j) = Returns (SuggestBottleTypeOutputSchema j)"

text \<open>
  The external service: what it answers to a request. A request is the prompt and the
  photo sent with it.
\<close>

type_synonym Service = "Prompt \<Rightarrow> string \<Rightarrow> ServiceReply"

text \<open>The requests issued so far, oldest first.\<close>

type_synonym Requests = "(Prompt \<times> string) list"

definition callPrompt ::
  "Service \<Rightarrow> Prompt \<Rightarrow> string \<Rightarrow> Requests \<Rightarrow> PromptResult \<times> Requests" where
  "callPrompt svc p photo reqs = (runPrompt (svc p photo), reqs @ [(p, photo)])"

subsection \<open>The flow\<close>

text \<open>
  The \<^verbatim>\<open>outputSchema\<close> of the flow applied to what the body returns: \<^verbatim>\<open>output!\<close> lets a
  null through at run time, and null is no \<^verbatim>\<open>SuggestBottleTypeOutput\<close>.
\<close>

fun flowOutput :: "PromptResult \<Rightarrow> ServiceError + SuggestBottleTypeOutput" where
  "flowOutput (Throws e) = Inl e"
| "flowOutput (Returns None) = Inl MalformedOutput"
| "flowOutput (Returns (Some out)) = Inr out"

text \<open>
  \<^verbatim>\<open>suggestBottleTypeFlow\<close> (lines 80 to 95): one branch per validation step, one prompt
  awaited in each, its output returned as it is.
\<close>

definition suggestBottleTypeFlow ::
  "Service \<Rightarrow> SuggestBottleTypeInput \<Rightarrow> Requests
     \<Rightarrow> (ServiceError + SuggestBottleTypeOutput) \<times> Requests" where
  "suggestBottleTypeFlow svc input reqs =
     (if inputValidationStep input = step_identify then
        (let (res, reqs') = callPrompt svc identifyBottlePrompt (photoDataUri input) reqs
         in (flowOutput res, reqs'))
      else
        (let (res, reqs') = callPrompt svc confirmDepositPrompt (photoDataUri input) reqs
         in (flowOutput res, reqs')))"

text \<open>\<^verbatim>\<open>suggestBottleType\<close> (lines 38 to 40).\<close>

definition suggestBottleType ::
  "Service \<Rightarrow> SuggestBottleTypeInput \<Rightarrow> Requests
     \<Rightarrow> (ServiceError + SuggestBottleTypeOutput) \<times> Requests" where
  "suggestBottleType svc input reqs = suggestBottleTypeFlow svc input reqs"

section \<open>The scan session: src/app/dashboard/page.tsx\<close>

subsection \<open>Component state\<close>

text \<open>\<^verbatim>\<open>type ValidationStep = "identify" | "confirm" | "done"\<close>\<close>

datatype ValidationStep = Identify | Confirm | Done

text \<open>\<^verbatim>\<open>interface DetectedBottle { type: string }\<close>\<close>

datatype DetectedBottle = DetectedBottle (bottle_type: string)

text \<open>
  The \<^verbatim>\<open>useState\<close> cells of \<^verbatim>\<open>DashboardPage\<close> (lines 31 to 36), and the calls made to
  \<^verbatim>\<open>addBottle\<close> of the user context, oldest first, each with its two arguments.
\<close>

record PageState =
  validationStep :: ValidationStep
  isDetecting :: bool
  detectedBottle :: "DetectedBottle option"
  error :: "string option"
  hasCameraPermission :: "bool option"
  addBottleCalls :: "(string \<times> nat) list"

text \<open>The initial values of the cells; nothing has been recorded yet.\<close>

definition initialState :: PageState where
  "initialState =
     \<lparr>validationStep = Identify, isDetecting = False, detectedBottle = None,
      error = None, hasCameraPermission = None, addBottleCalls = []\<rparr>"

text \<open>Modelled from the spec: \<^verbatim>\<open>addBottle\<close> comes from \<^verbatim>\<open>@/contexts/user-context\<close>, which is
  not among the sources. The spec describes it as \<^verbatim>\<open>recordItem(label, size)\<close>, fire and
  forget; the call is recorded.
\<close>

definition addBottle :: "string \<Rightarrow> nat \<Rightarrow> PageState \<Rightarrow> PageState" where
  "addBottle label sz s = s\<lparr>addBottleCalls := addBottleCalls s @ [(label, sz)]\<rparr>"

subsection \<open>The camera\<close>

text \<open>
  What \<^verbatim>\<open>captureFrame\<close> reads: \<^verbatim>\<open>videoRef.current\<close> (\<open>None\<close> when null, else the frame the
  video shows, already as a data URI), \<^verbatim>\<open>canvasRef.current\<close> (\<open>None\<close> when null, else
  whether \<^verbatim>\<open>getContext('2d')\<close> gives a context).
\<close>

record Refs =
  videoRef :: "string option"
  canvasRef :: "bool option"

text \<open>\<^verbatim>\<open>captureFrame\<close> (lines 75 to 89): \<open>Inl\<close> is the thrown Error's message.\<close>

definition captureFrame :: "Refs \<Rightarrow> string + string" where
  "captureFrame r =
     (case (videoRef r, canvasRef r) of
        (Some video, Some hasContext) \<Rightarrow>
          if \<not> hasContext then Inl ''Could not get canvas context''
          else Inr video
      | _ \<Rightarrow> Inl ''Camera or canvas not ready.'')"

subsection \<open>The handlers\<close>

text \<open>
  An async handler runs up to its \<^verbatim>\<open>await\<close> when the control is clicked and resumes when
  the awaited call settles. Each handler is therefore two functions: the first gives the
  state at the \<^verbatim>\<open>await\<close> and the call that is now outstanding (\<open>None\<close> when the handler
  finished without one), the second continues from the state at the time the call
  settles, with its outcome (\<open>Inl\<close> when it rejected).
\<close>

definition identifyRejected :: string where
  "identifyRejected = ''This doesn't look like a plastic bottle. Please try again.''"

definition identifyFailed :: string where
  "identifyFailed = ''An error occurred during analysis. Please try again.''"

definition confirmRejected :: string where
  "confirmRejected =
     ''Deposit not confirmed. Please ensure the bottle goes into the bin clearly.''"

definition confirmFailed :: string where
  "confirmFailed = ''An error occurred during confirmation. Please try again.''"

text \<open>\<^verbatim>\<open>handleIdentifyBottle\<close>, lines 92 to 98, with the catch and finally of a throwing
  \<^verbatim>\<open>captureFrame\<close>.\<close>

definition handleIdentifyBottle_begin ::
  "Refs \<Rightarrow> PageState \<Rightarrow> PageState \<times> SuggestBottleTypeInput option" where
  "handleIdentifyBottle_begin r s =
     (let s1 = s\<lparr>isDetecting := True\<rparr>;
          s2 = s1\<lparr>error := None\<rparr>;
          s3 = s2\<lparr>detectedBottle := None\<rparr>
      in case captureFrame r of
           Inl err \<Rightarrow> (s3\<lparr>error := Some identifyFailed, isDetecting := False\<rparr>, None)
         | Inr dataUri \<Rightarrow>
             (s3, Some \<lparr>photoDataUri = dataUri, inputValidationStep = step_identify\<rparr>))"

text \<open>\<^verbatim>\<open>handleIdentifyBottle\<close>, lines 100 to 112.\<close>

definition handleIdentifyBottle_resume ::
  "'e + SuggestBottleTypeOutput \<Rightarrow> PageState \<Rightarrow> PageState" where
  "handleIdentifyBottle_resume outcome s =
     (let s' =
        (case outcome of
           Inr aiResult \<Rightarrow>
             (case (isPlasticBottle aiResult, suggestions aiResult) of
                (True, Some (firstSuggestion # rest)) \<Rightarrow>
                  s\<lparr>detectedBottle := Some (DetectedBottle (suggestion_type firstSuggestion)),
                    validationStep := Confirm\<rparr>
              | _ \<Rightarrow> s\<lparr>error := Some identifyRejected\<rparr>)
         | Inl err \<Rightarrow> s\<lparr>error := Some identifyFailed\<rparr>)
      in s'\<lparr>isDetecting := False\<rparr>)"

text \<open>
  \<^verbatim>\<open>handleConfirmDeposit\<close>, lines 116 to 123. The callback closes over \<^verbatim>\<open>detectedBottle\<close>
  of the render it was made in, so the bottle it will record is fixed when it starts
  and travels with the outstanding call.
\<close>

definition handleConfirmDeposit_begin ::
  "Refs \<Rightarrow> PageState \<Rightarrow> PageState \<times> (DetectedBottle \<times> SuggestBottleTypeInput) option" where
  "handleConfirmDeposit_begin r s =
     (case detectedBottle s of
        None \<Rightarrow> (s, None)
      | Some bottle \<Rightarrow>
          (let s1 = s\<lparr>isDetecting := True\<rparr>;
               s2 = s1\<lparr>error := None\<rparr>
           in case captureFrame r of
                Inl err \<Rightarrow> (s2\<lparr>error := Some confirmFailed, isDetecting := False\<rparr>, None)
              | Inr dataUri \<Rightarrow>
                  (s2, Some (bottle,
                     \<lparr>photoDataUri = dataUri, inputValidationStep = step_confirm\<rparr>))))"

text \<open>\<^verbatim>\<open>handleConfirmDeposit\<close>, lines 125 to 136.\<close>

definition handleConfirmDeposit_resume ::
  "DetectedBottle \<Rightarrow> 'e + SuggestBottleTypeOutput \<Rightarrow> PageState \<Rightarrow> PageState" where
  "handleConfirmDeposit_resume bottle outcome s =
     (let s' =
        (case outcome of
           Inr aiResult \<Rightarrow>
             if isDeposited aiResult
             then (addBottle (bottle_type bottle) 0 s)\<lparr>validationStep := Done\<rparr>
             else s\<lparr>error := Some confirmRejected\<rparr>
         | Inl err \<Rightarrow> s\<lparr>error := Some confirmFailed\<rparr>)
      in s'\<lparr>isDetecting := False\<rparr>)"

text \<open>\<^verbatim>\<open>handleResetScanner\<close> (lines 139 to 143).\<close>

definition handleResetScanner :: "PageState \<Rightarrow> PageState" where
  "handleResetScanner s =
     (let s1 = s\<lparr>error := None\<rparr>;
          s2 = s1\<lparr>detectedBottle := None\<rparr>
      in s2\<lparr>validationStep := Identify\<rparr>)"

text \<open>
  The session of the spec is three of the cells: the phase, the detected label and the
  last error.
\<close>

definition session :: "PageState \<Rightarrow> ValidationStep \<times> string option \<times> string option" where
  "session s = (validationStep s, map_option bottle_type (detectedBottle s), error s)"

text \<open>
  A handler run with nothing else happening while its call is outstanding: \<open>classify\<close>
  is what \<^verbatim>\<open>suggestBottleType\<close> gives for the input (\<open>Inl\<close> when it rejects).
\<close>

definition handleIdentifyBottle ::
  "Refs \<Rightarrow> (SuggestBottleTypeInput \<Rightarrow> 'e + SuggestBottleTypeOutput) \<Rightarrow> PageState \<Rightarrow> PageState" where
  "handleIdentifyBottle r classify s =
     (case handleIdentifyBottle_begin r s of
        (s1, None) \<Rightarrow> s1
      | (s1, Some input) \<Rightarrow> handleIdentifyBottle_resume (classify input) s1)"

definition handleConfirmDeposit ::
  "Refs \<Rightarrow> (SuggestBottleTypeInput \<Rightarrow> 'e + SuggestBottleTypeOutput) \<Rightarrow> PageState \<Rightarrow> PageState" where
  "handleConfirmDeposit r classify s =
     (case handleConfirmDeposit_begin r s of
        (s1, None) \<Rightarrow> s1
      | (s1, Some (bottle, input)) \<Rightarrow> handleConfirmDeposit_resume bottle (classify input) s1)"

subsection \<open>What the page renders\<close>

text \<open>The buttons of \<^verbatim>\<open>renderScannerContent\<close>, by their labels.\<close>

datatype Control = ScanBottle | ConfirmDeposit | TryAgain | Cancel | ScanAnotherBottle

text \<open>\<^verbatim>\<open>if (error)\<close>: null and the empty string are falsy.\<close>

fun truthy :: "string option \<Rightarrow> bool" where
  "truthy None = False"
| "truthy (Some m) = (m \<noteq> [])"

text \<open>
  \<^verbatim>\<open>renderScannerContent\<close> (lines 157 to 212): the buttons rendered in a state, each with
  the value of its \<^verbatim>\<open>disabled\<close> attribute. While \<^verbatim>\<open>isDetecting\<close> there is only the spinner.
  Without a signed-in user the component returns a redirect notice before it gets here
  (line 145); the states modelled are those of a signed-in user.
\<close>

definition renderScannerContent :: "PageState \<Rightarrow> (Control \<times> bool) list" where
  "renderScannerContent s =
     (if isDetecting s then []
      else if truthy (error s) then [(TryAgain, False)]
      else
        (case validationStep s of
           Identify \<Rightarrow> [(ScanBottle, isDetecting s \<or> hasCameraPermission s \<noteq> Some True)]
         | Confirm \<Rightarrow> [(ConfirmDeposit, isDetecting s), (Cancel, False)]
         | Done \<Rightarrow> [(ScanAnotherBottle, False)]))"

text \<open>A control can be clicked when it is rendered and not disabled.\<close>

definition clickable :: "PageState \<Rightarrow> Control \<Rightarrow> bool" where
  "clickable s c = ((c, False) \<in> set (renderScannerContent s))"

subsection \<open>The page as a transition system\<close>

text \<open>
  A call to \<^verbatim>\<open>suggestBottleType\<close> that has not settled yet, with what its handler needs to
  resume: the confirm handler keeps the bottle it closed over.
\<close>

datatype Outstanding =
    IdentifyCall SuggestBottleTypeInput
  | ConfirmCall DetectedBottle SuggestBottleTypeInput

record Page =
  state :: PageState
  outstanding :: "Outstanding list"

definition initialPage :: Page where
  "initialPage = \<lparr>state = initialState, outstanding = []\<rparr>"

text \<open>
  What happens to the page: the user clicks a control (the refs are what \<^verbatim>\<open>captureFrame\<close>
  finds at that moment), an outstanding call settles with a result or an error, or
  \<^verbatim>\<open>getUserMedia\<close> of the camera effect (lines 46 to 66) settles.
\<close>

datatype Event =
    Click Control Refs
  | Settle nat "ServiceError + SuggestBottleTypeOutput"
  | CameraPermission bool

text \<open>The \<^verbatim>\<open>onClick\<close> of each button.\<close>

fun onClick :: "Control \<Rightarrow> Refs \<Rightarrow> Page \<Rightarrow> Page" where
  "onClick ScanBottle r p =
     (case handleIdentifyBottle_begin r (state p) of
        (s1, None) \<Rightarrow> p\<lparr>state := s1\<rparr>
      | (s1, Some input) \<Rightarrow>
          \<lparr>state = s1, outstanding = outstanding p @ [IdentifyCall input]\<rparr>)"
| "onClick ConfirmDeposit r p =
     (case handleConfirmDeposit_begin r (state p) of
        (s1, None) \<Rightarrow> p\<lparr>state := s1\<rparr>
      | (s1, Some (bottle, input)) \<Rightarrow>
          \<lparr>state = s1, outstanding = outstanding p @ [ConfirmCall bottle input]\<rparr>)"
| "onClick TryAgain r p = p\<lparr>state := handleResetScanner (state p)\<rparr>"
| "onClick Cancel r p = p\<lparr>state := handleResetScanner (state p)\<rparr>"
| "onClick ScanAnotherBottle r p = p\<lparr>state := handleResetScanner (state p)\<rparr>"

text \<open>The handler of a call resumes when the call settles.\<close>

fun resume :: "Outstanding \<Rightarrow> ServiceError + SuggestBottleTypeOutput \<Rightarrow> PageState \<Rightarrow> PageState" where
  "resume (IdentifyCall input) outcome s = handleIdentifyBottle_resume outcome s"
| "resume (ConfirmCall bottle input) outcome s = handleConfirmDeposit_resume bottle outcome s"

text \<open>
  One event; \<open>None\<close> when it cannot happen in this state (the control is not there or
  is disabled, there is no such outstanding call).
\<close>

fun fire :: "Event \<Rightarrow> Page \<Rightarrow> Page option" where
  "fire (Click c r) p =
     (if clickable (state p) c then Some (onClick c r p) else None)"
| "fire (Settle i outcome) p =
     (if i < length (outstanding p)
      then Some \<lparr>state = resume (outstanding p ! i) outcome (state p),
                 outstanding = take i (outstanding p) @ drop (Suc i) (outstanding p)\<rparr>
      else None)"
| "fire (CameraPermission granted) p =
     Some (p\<lparr>state := (state p)\<lparr>hasCameraPermission := Some granted\<rparr>\<rparr>)"

fun run :: "Event list \<Rightarrow> Page \<Rightarrow> Page option" where
  "run [] p = Some p"
| "run (e # es) p = (case fire e p of None \<Rightarrow> None | Some p' \<Rightarrow> run es p')"



text \<open>The states the page can be in: those some sequence of events leads to.\<close>

inductive reachable :: "Page \<Rightarrow> bool" where
  reachable_initial: "reachable initialPage"
| reachable_fire: "reachable p \<Longrightarrow> fire e p = Some p' \<Longrightarrow> reachable p'"

text \<open>
  What holds of every state of the page: a call is outstanding exactly while
  \<^verbatim>\<open>isDetecting\<close>, there is at most one, it belongs to the current phase, and in the
  confirm phase there is a detected bottle (the one an outstanding confirm call keeps).
\<close>

fun callFits :: "PageState \<Rightarrow> Outstanding \<Rightarrow> bool" where
  "callFits s (IdentifyCall input) = (validationStep s = Identify)"
| "callFits s (ConfirmCall bottle input) =
     (validationStep s = Confirm \<and> detectedBottle s = Some bottle)"

definition pageInvariant :: "Page \<Rightarrow> bool" where
  "pageInvariant p =
     (length (outstanding p) \<le> 1
      \<and> (isDetecting (state p) = (outstanding p \<noteq> []))
      \<and> list_all (callFits (state p)) (outstanding p)
      \<and> (validationStep (state p) = Confirm \<longrightarrow> detectedBottle (state p) \<noteq> None))"

subsection \<open>Sample inputs\<close>

definition readyRefs :: Refs where
  "readyRefs = \<lparr>videoRef = Some ''data:image/jpeg;base64,AAAA'', canvasRef = Some True\<rparr>"

definition colaResult :: SuggestBottleTypeOutput where
  "colaResult =
     \<lparr>suggestions = Some [Suggestion ''Coca-Cola'', Suggestion ''Pepsi''],
      isPlasticBottle = True, isDeposited = False\<rparr>"

definition notBottleResult :: SuggestBottleTypeOutput where
  "notBottleResult = \<lparr>suggestions = None, isPlasticBottle = False, isDeposited = False\<rparr>"

definition depositedResult :: SuggestBottleTypeOutput where
  "depositedResult =
     \<lparr>suggestions = Some [Suggestion ''Pepsi''], isPlasticBottle = True, isDeposited = True\<rparr>"

definition notDepositedResult :: SuggestBottleTypeOutput where
  "notDepositedResult = \<lparr>suggestions = None, isPlasticBottle = False, isDeposited = False\<rparr>"

definition identifyInput :: SuggestBottleTypeInput where
  "identifyInput =
     \<lparr>photoDataUri = ''data:image/jpeg;base64,AAAA'', inputValidationStep = step_identify\<rparr>"

text \<open>A gateway that gives every input the same outcome.\<close>

definition answering ::
  "ServiceError + SuggestBottleTypeOutput
     \<Rightarrow> SuggestBottleTypeInput \<Rightarrow> ServiceError + SuggestBottleTypeOutput" where
  "answering outcome input = outcome"

text \<open>Replies that conform to the schema and set the field their step should leave alone.\<close>

definition depositedDuringIdentify :: json where
  "depositedDuringIdentify =
     JObj [(''suggestions'', JArr [JObj [(''type'', JStr ''Coca-Cola'')]]),
           (''isPlasticBottle'', JBool True), (''isDeposited'', JBool True)]"

definition bottleDuringConfirm :: json where
  "bottleDuringConfirm =
     JObj [(''isDeposited'', JBool False), (''isPlasticBottle'', JBool True),
           (''suggestions'', JArr [JObj [(''type'', JStr ''Pepsi'')]])]"

definition obligingService :: Service where
  "obligingService p photo =
     (case p of
        identifyBottlePrompt \<Rightarrow> Replied depositedDuringIdentify
      | confirmDepositPrompt \<Rightarrow> Replied bottleDuringConfirm)"

definition failingService :: Service where
  "failingService p photo =
     (if photo = ''offline'' then Unreachable
      else if photo = ''slow'' then TimedOut
      else Replied (JObj [(''isPlasticBottle'', JStr ''yes''), (''isDeposited'', JBool False)]))"

text \<open>The page while the first scan is outstanding, and after it was accepted.\<close>

definition scanningPage :: Page where
  "scanningPage =
     \<lparr>state = \<lparr>validationStep = Identify, isDetecting = True, detectedBottle = None,
               error = None, hasCameraPermission = Some True, addBottleCalls = []\<rparr>,
      outstanding = [IdentifyCall identifyInput]\<rparr>"

definition confirmingPage :: Page where
  "confirmingPage =
     \<lparr>state = \<lparr>validationStep = Confirm, isDetecting = False,
               detectedBottle = Some (DetectedBottle ''Coca-Cola''),
               error = None, hasCameraPermission = Some True, addBottleCalls = []\<rparr>,
      outstanding = []\<rparr>"


definition rejectedPage :: Page where
  "rejectedPage =
     \<lparr>state = \<lparr>validationStep = Confirm, isDetecting = False,
               detectedBottle = Some (DetectedBottle ''Coca-Cola''),
               error = Some confirmRejected,
               hasCameraPermission = Some True, addBottleCalls = []\<rparr>,
      outstanding = []\<rparr>"

section \<open>Facts about the handlers\<close>

text \<open>Each handler, branch by branch, as one record update.\<close>

lemma identify_begin_captured:
  "captureFrame r = Inr uri \<Longrightarrow>
   handleIdentifyBottle_begin r s =
     (s\<lparr>isDetecting := True, error := None, detectedBottle := None\<rparr>,
      Some \<lparr>photoDataUri = uri, inputValidationStep = step_identify\<rparr>)"
  by (simp add: handleIdentifyBottle_begin_def)

lemma identify_begin_thrown:
  "captureFrame r = Inl msg \<Longrightarrow>
   handleIdentifyBottle_begin r s =
     (s\<lparr>isDetecting := False, error := Some identifyFailed, detectedBottle := None\<rparr>, None)"
  by (simp add: handleIdentifyBottle_begin_def)

lemma confirm_begin_no_bottle:
  "detectedBottle s = None \<Longrightarrow> handleConfirmDeposit_begin r s = (s, None)"
  by (simp add: handleConfirmDeposit_begin_def)

lemma confirm_begin_captured:
  "detectedBottle s = Some b \<Longrightarrow> captureFrame r = Inr uri \<Longrightarrow>
   handleConfirmDeposit_begin r s =
     (s\<lparr>isDetecting := True, error := None\<rparr>,
      Some (b, \<lparr>photoDataUri = uri, inputValidationStep = step_confirm\<rparr>))"
  by (simp add: handleConfirmDeposit_begin_def)

lemma confirm_begin_thrown:
  "detectedBottle s = Some b \<Longrightarrow> captureFrame r = Inl msg \<Longrightarrow>
   handleConfirmDeposit_begin r s =
     (s\<lparr>isDetecting := False, error := Some confirmFailed\<rparr>, None)"
  by (simp add: handleConfirmDeposit_begin_def)

lemma identify_resume_accepted:
  "isPlasticBottle a \<Longrightarrow> suggestions a = Some (x # xs) \<Longrightarrow>
   handleIdentifyBottle_resume (Inr a) s =
     s\<lparr>detectedBottle := Some (DetectedBottle (suggestion_type x)),
       validationStep := Confirm, isDetecting := False\<rparr>"
  by (simp add: handleIdentifyBottle_resume_def)

lemma identify_resume_rejected:
  "\<not> isPlasticBottle a \<or> suggestions a = None \<or> suggestions a = Some [] \<Longrightarrow>
   handleIdentifyBottle_resume (Inr a) s =
     s\<lparr>error := Some identifyRejected, isDetecting := False\<rparr>"
  by (auto simp add: handleIdentifyBottle_resume_def split: bool.splits option.splits list.splits)

lemma identify_resume_failed:
  "handleIdentifyBottle_resume (Inl e) s =
     s\<lparr>error := Some identifyFailed, isDetecting := False\<rparr>"
  by (simp add: handleIdentifyBottle_resume_def)

lemma confirm_resume_deposited:
  "isDeposited a \<Longrightarrow>
   handleConfirmDeposit_resume b (Inr a) s =
     s\<lparr>addBottleCalls := addBottleCalls s @ [(bottle_type b, 0)],
       validationStep := Done, isDetecting := False\<rparr>"
  by (simp add: handleConfirmDeposit_resume_def addBottle_def)

lemma confirm_resume_rejected:
  "\<not> isDeposited a \<Longrightarrow>
   handleConfirmDeposit_resume b (Inr a) s =
     s\<lparr>error := Some confirmRejected, isDetecting := False\<rparr>"
  by (simp add: handleConfirmDeposit_resume_def)

lemma confirm_resume_failed:
  "handleConfirmDeposit_resume b (Inl e) s =
     s\<lparr>error := Some confirmFailed, isDetecting := False\<rparr>"
  by (simp add: handleConfirmDeposit_resume_def)

lemma reset_state:
  "handleResetScanner s = s\<lparr>error := None, detectedBottle := None, validationStep := Identify\<rparr>"
  by (simp add: handleResetScanner_def)

text \<open>When a control can be clicked.\<close>

lemma clickable_idle: "clickable s c \<Longrightarrow> \<not> isDetecting s"
  by (auto simp: clickable_def renderScannerContent_def split: if_splits)

lemma clickable_ScanBottle:
  "clickable s ScanBottle \<longleftrightarrow>
     \<not> isDetecting s \<and> \<not> truthy (error s) \<and> validationStep s = Identify
     \<and> hasCameraPermission s = Some True"
  by (cases "validationStep s") (auto simp: clickable_def renderScannerContent_def)

lemma clickable_ConfirmDeposit:
  "clickable s ConfirmDeposit \<longleftrightarrow>
     \<not> isDetecting s \<and> \<not> truthy (error s) \<and> validationStep s = Confirm"
  by (cases "validationStep s") (auto simp: clickable_def renderScannerContent_def)

section \<open>The invariant of the page\<close>

text \<open>Every event keeps \<open>pageInvariant\<close>, so every reachable state has it.\<close>

lemma invariant_idle:
  "pageInvariant p \<Longrightarrow> \<not> isDetecting (state p) \<Longrightarrow> outstanding p = []"
  by (simp add: pageInvariant_def)

lemma invariant_reset:
  assumes "pageInvariant p" "\<not> isDetecting (state p)"
  shows "pageInvariant (p\<lparr>state := handleResetScanner (state p)\<rparr>)"
  using assms by (simp add: pageInvariant_def reset_state)

lemma invariant_scan:
  assumes "pageInvariant p" "clickable (state p) ScanBottle"
  shows "pageInvariant (onClick ScanBottle r p)"
proof -
  from assms have idle: "outstanding p = []" and ph: "validationStep (state p) = Identify"
    by (simp_all add: clickable_ScanBottle invariant_idle)
  show ?thesis
  proof (cases "captureFrame r")
    case (Inl msg)
    then show ?thesis using idle ph
      by (simp add: identify_begin_thrown pageInvariant_def)
  next
    case (Inr uri)
    then show ?thesis using idle ph
      by (simp add: identify_begin_captured pageInvariant_def)
  qed
qed

lemma invariant_confirm:
  assumes "pageInvariant p" "clickable (state p) ConfirmDeposit"
  shows "pageInvariant (onClick ConfirmDeposit r p)"
proof -
  from assms have idle: "outstanding p = []" and ph: "validationStep (state p) = Confirm"
    by (simp_all add: clickable_ConfirmDeposit invariant_idle)
  with assms(1) obtain b where b: "detectedBottle (state p) = Some b"
    by (auto simp: pageInvariant_def)
  show ?thesis
  proof (cases "captureFrame r")
    case (Inl msg)
    then show ?thesis using idle ph b
      by (simp add: confirm_begin_thrown pageInvariant_def)
  next
    case (Inr uri)
    then show ?thesis using idle ph b
      by (simp add: confirm_begin_captured pageInvariant_def)
  qed
qed

lemma invariant_click:
  assumes "pageInvariant p" "clickable (state p) c"
  shows "pageInvariant (onClick c r p)"
proof (cases c)
  case ScanBottle
  with assms show ?thesis by (simp only: invariant_scan)
next
  case ConfirmDeposit
  with assms show ?thesis by (simp only: invariant_confirm)
next
  case TryAgain
  with assms show ?thesis by (simp add: invariant_reset clickable_idle)
next
  case Cancel
  with assms show ?thesis by (simp add: invariant_reset clickable_idle)
next
  case ScanAnotherBottle
  with assms show ?thesis by (simp add: invariant_reset clickable_idle)
qed

lemma invariant_settle_identify:
  assumes "validationStep s = Identify" "isDetecting s"
  shows "pageInvariant \<lparr>state = handleIdentifyBottle_resume outcome s, outstanding = []\<rparr>"
proof (cases outcome)
  case (Inl e)
  then show ?thesis using assms by (simp add: identify_resume_failed pageInvariant_def)
next
  case (Inr a)
  show ?thesis
  proof (cases "isPlasticBottle a \<and> (\<exists>x xs. suggestions a = Some (x # xs))")
    case True
    then obtain x xs where "isPlasticBottle a" "suggestions a = Some (x # xs)" by blast
    then show ?thesis using Inr assms
      by (simp add: identify_resume_accepted pageInvariant_def)
  next
    case False
    then have "\<not> isPlasticBottle a \<or> suggestions a = None \<or> suggestions a = Some []"
      by (cases "suggestions a"; cases "the (suggestions a)"; simp)
    then show ?thesis using Inr assms
      by (simp add: identify_resume_rejected pageInvariant_def)
  qed
qed

lemma invariant_settle_confirm:
  assumes "validationStep s = Confirm" "detectedBottle s = Some b0" "isDetecting s"
  shows "pageInvariant \<lparr>state = handleConfirmDeposit_resume b outcome s, outstanding = []\<rparr>"
proof (cases outcome)
  case (Inl e)
  then show ?thesis using assms by (simp add: confirm_resume_failed pageInvariant_def)
next
  case (Inr a)
  then show ?thesis using assms
    by (cases "isDeposited a")
       (simp_all add: confirm_resume_deposited confirm_resume_rejected pageInvariant_def)
qed

lemma invariant_settle:
  assumes "pageInvariant p" "i < length (outstanding p)"
  shows "pageInvariant \<lparr>state = resume (outstanding p ! i) outcome (state p),
                 outstanding = take i (outstanding p) @ drop (Suc i) (outstanding p)\<rparr>"
proof -
  from assms obtain call where o: "outstanding p = [call]" and i: "i = 0"
    by (cases "outstanding p") (auto simp: pageInvariant_def)
  from assms(1) o have busy: "isDetecting (state p)" and fits: "callFits (state p) call"
    by (simp_all add: pageInvariant_def)
  show ?thesis
  proof (cases call)
    case (IdentifyCall input)
    with fits busy o i show ?thesis by (simp add: invariant_settle_identify)
  next
    case (ConfirmCall b input)
    with fits busy o i show ?thesis by (simp add: invariant_settle_confirm)
  qed
qed

lemma callFits_camera:
  "callFits (s\<lparr>hasCameraPermission := g\<rparr>) call = callFits s call"
  by (cases call) simp_all

lemma invariant_camera:
  assumes "pageInvariant p"
  shows "pageInvariant (p\<lparr>state := (state p)\<lparr>hasCameraPermission := Some g\<rparr>\<rparr>)"
  using assms by (simp add: pageInvariant_def callFits_camera list_all_iff)

lemma invariant_fire:
  assumes "pageInvariant p" "fire e p = Some p'"
  shows "pageInvariant p'"
proof (cases e)
  case (Click c r)
  with assms show ?thesis by (auto simp: invariant_click split: if_splits)
next
  case (Settle i outcome)
  with assms show ?thesis using invariant_settle[of p i outcome] by (auto split: if_splits)
next
  case (CameraPermission g)
  with assms show ?thesis using invariant_camera[of p g] by auto
qed

lemma invariant_initial: "pageInvariant initialPage"
  by (simp add: pageInvariant_def initialPage_def initialState_def)

lemma reachable_invariant: "reachable p \<Longrightarrow> pageInvariant p"
  by (induction rule: reachable.induct) (auto intro: invariant_initial invariant_fire)

text \<open>A state that a sequence of events leads to from the initial page is reachable.\<close>

lemma run_reachable_from: "reachable p \<Longrightarrow> run es p = Some p' \<Longrightarrow> reachable p'"
proof (induction es arbitrary: p)
  case Nil
  then show ?case by simp
next
  case (Cons e es)
  then obtain q where q: "fire e p = Some q" and r: "run es q = Some p'"
    by (auto split: option.splits)
  from Cons.prems(1) q have "reachable q" by (rule reachable_fire)
  then show ?case using r by (rule Cons.IH)
qed

lemma run_reachable: "run es initialPage = Some p \<Longrightarrow> reachable p"
  using run_reachable_from[OF reachable_initial] .





lemma run_append:
  "run (es @ es') p = (case run es p of None \<Rightarrow> None | Some q \<Rightarrow> run es' q)"
  by (induction es arbitrary: p) (simp_all split: option.splits)

section \<open>Facts about the gateway\<close>

lemma flow_one_call:
  "suggestBottleTypeFlow svc input reqs =
     (flowOutput (runPrompt (svc (if inputValidationStep input = step_identify
                                  then identifyBottlePrompt else confirmDepositPrompt)
                                 (photoDataUri input))),
      reqs @ [(if inputValidationStep input = step_identify
               then identifyBottlePrompt else confirmDepositPrompt, photoDataUri input)])"
  by (simp add: suggestBottleTypeFlow_def callPrompt_def)

lemma flowOutput_fails:
  "(\<exists>e. flowOutput (runPrompt reply) = Inl e) \<longleftrightarrow>
     reply = Unreachable \<or> reply = TimedOut
     \<or> (\<exists>j. reply = Replied j \<and> SuggestBottleTypeOutputSchema j = None)"
proof (cases reply)
  case (Replied j)
  then show ?thesis by (cases "SuggestBottleTypeOutputSchema j") simp_all
qed simp_all

section \<open>Reachable sample pages\<close>

lemma captureFrame_readyRefs: "captureFrame readyRefs = Inr ''data:image/jpeg;base64,AAAA''"
  by (simp add: captureFrame_def readyRefs_def)

lemma run_scanningPage:
  "run [CameraPermission True, Click ScanBottle readyRefs] initialPage = Some scanningPage"
  by (simp add: initialPage_def initialState_def scanningPage_def identifyInput_def
      clickable_ScanBottle identify_begin_captured[OF captureFrame_readyRefs])

lemma run_confirmingPage:
  "run [Settle 0 (Inr colaResult)] scanningPage = Some confirmingPage"
  by (simp add: scanningPage_def confirmingPage_def colaResult_def
      identify_resume_accepted)

lemma reachable_scanningPage: "reachable scanningPage"
  using run_scanningPage by (rule run_reachable)

lemma reachable_confirmingPage: "reachable confirmingPage"
  using reachable_scanningPage run_confirmingPage by (rule run_reachable_from)

lemma run_rejectedPage:
  "run [Click ConfirmDeposit readyRefs, Settle 0 (Inr notDepositedResult)] confirmingPage
     = Some rejectedPage"
  by (simp add: confirmingPage_def rejectedPage_def notDepositedResult_def
      clickable_ConfirmDeposit confirm_begin_captured[OF _ captureFrame_readyRefs]
      confirm_resume_rejected)

lemma reachable_rejectedPage: "reachable rejectedPage"
  using reachable_confirmingPage run_rejectedPage by (rule run_reachable_from)

section \<open>The identify step\<close>

text \<open>
  C3. An identify trigger whose frame is captured and whose classification returns
  \<^verbatim>\<open>isPlasticBottle\<close> true with a non-empty \<^verbatim>\<open>suggestions\<close> array ends in the confirm phase,
  with \<^verbatim>\<open>detectedBottle\<close> holding exactly the \<^verbatim>\<open>type\<close> of the first suggestion, no error
  and \<^verbatim>\<open>isDetecting\<close> false; this holds from any state, the identifying phase included.
\<close>

theorem identify_accepts_first_candidate:
  assumes "captureFrame r = Inr uri"
    and "classify \<lparr>photoDataUri = uri, inputValidationStep = step_identify\<rparr> = Inr aiResult"
    and "isPlasticBottle aiResult"
    and "suggestions aiResult = Some (firstSuggestion # others)"
  shows "validationStep (handleIdentifyBottle r classify s) = Confirm
         \<and> detectedBottle (handleIdentifyBottle r classify s)
             = Some (DetectedBottle (suggestion_type firstSuggestion))
         \<and> error (handleIdentifyBottle r classify s) = None
         \<and> \<not> isDetecting (handleIdentifyBottle r classify s)"
  using assms
  by (simp add: handleIdentifyBottle_def identify_begin_captured identify_resume_accepted)

theorem identify_accepts_first_candidate_witness:
  "captureFrame readyRefs = Inr ''data:image/jpeg;base64,AAAA''
   \<and> isPlasticBottle colaResult
   \<and> suggestions colaResult = Some [Suggestion ''Coca-Cola'', Suggestion ''Pepsi'']
   \<and> validationStep (handleIdentifyBottle readyRefs (answering (Inr colaResult)) initialState) = Confirm
   \<and> detectedBottle (handleIdentifyBottle readyRefs (answering (Inr colaResult)) initialState)
       = Some (DetectedBottle ''Coca-Cola'')
   \<and> error (handleIdentifyBottle readyRefs (answering (Inr colaResult)) initialState) = None"
  using identify_accepts_first_candidate
    [of readyRefs "''data:image/jpeg;base64,AAAA''" "answering (Inr colaResult)" colaResult
        "Suggestion ''Coca-Cola''" "[Suggestion ''Pepsi'']" initialState]
  by (simp add: answering_def captureFrame_readyRefs colaResult_def)

text \<open>
  C4. An identify trigger from the identifying phase whose classification returns
  \<^verbatim>\<open>isPlasticBottle\<close> false, or no \<^verbatim>\<open>suggestions\<close>, or an empty array, stays in the identifying
  phase with no detected bottle and with the error set to the message that this does not
  look like a plastic bottle; nothing is recorded.
\<close>

theorem identify_rejection_stays_identifying:
  assumes "validationStep s = Identify"
    and "captureFrame r = Inr uri"
    and "classify \<lparr>photoDataUri = uri, inputValidationStep = step_identify\<rparr> = Inr aiResult"
    and "\<not> isPlasticBottle aiResult \<or> suggestions aiResult = None
         \<or> suggestions aiResult = Some []"
  shows "validationStep (handleIdentifyBottle r classify s) = Identify
         \<and> detectedBottle (handleIdentifyBottle r classify s) = None
         \<and> error (handleIdentifyBottle r classify s) = Some identifyRejected
         \<and> addBottleCalls (handleIdentifyBottle r classify s) = addBottleCalls s"
  using assms
  by (simp add: handleIdentifyBottle_def identify_begin_captured identify_resume_rejected)

theorem identify_rejection_stays_identifying_witness:
  "validationStep initialState = Identify
   \<and> captureFrame readyRefs = Inr ''data:image/jpeg;base64,AAAA''
   \<and> \<not> isPlasticBottle notBottleResult
   \<and> validationStep (handleIdentifyBottle readyRefs (answering (Inr notBottleResult)) initialState)
       = Identify
   \<and> detectedBottle (handleIdentifyBottle readyRefs (answering (Inr notBottleResult)) initialState)
       = None
   \<and> error (handleIdentifyBottle readyRefs (answering (Inr notBottleResult)) initialState)
       = Some ''This doesn't look like a plastic bottle. Please try again.''
   \<and> addBottleCalls (handleIdentifyBottle readyRefs (answering (Inr notBottleResult)) initialState)
       = []"
  using identify_rejection_stays_identifying
    [of initialState readyRefs "''data:image/jpeg;base64,AAAA''" "answering (Inr notBottleResult)"
        notBottleResult]
  by (simp add: answering_def captureFrame_readyRefs notBottleResult_def initialState_def identifyRejected_def)

text \<open>
  C7. An identify trigger from the identifying phase whose gateway call rejects, with
  whatever error, stays in the identifying phase with the error set to the generic
  analysis message; nothing is recorded.
\<close>

theorem identify_failure_stays_identifying:
  assumes "validationStep s = Identify"
    and "captureFrame r = Inr uri"
    and "classify \<lparr>photoDataUri = uri, inputValidationStep = step_identify\<rparr> = Inl e"
  shows "validationStep (handleIdentifyBottle r classify s) = Identify
         \<and> error (handleIdentifyBottle r classify s) = Some identifyFailed
         \<and> addBottleCalls (handleIdentifyBottle r classify s) = addBottleCalls s"
  using assms
  by (simp add: handleIdentifyBottle_def identify_begin_captured identify_resume_failed)

theorem identify_failure_stays_identifying_witness:
  "validationStep initialState = Identify
   \<and> captureFrame readyRefs = Inr ''data:image/jpeg;base64,AAAA''
   \<and> validationStep (handleIdentifyBottle readyRefs (answering (Inl ServiceTimeout)) initialState)
       = Identify
   \<and> error (handleIdentifyBottle readyRefs (answering (Inl ServiceTimeout)) initialState)
       = Some ''An error occurred during analysis. Please try again.''
   \<and> addBottleCalls (handleIdentifyBottle readyRefs (answering (Inl ServiceTimeout)) initialState)
       = []"
  using identify_failure_stays_identifying
    [of initialState readyRefs "''data:image/jpeg;base64,AAAA''" "answering (Inl ServiceTimeout)"
        ServiceTimeout]
  by (simp add: answering_def captureFrame_readyRefs initialState_def identifyFailed_def)

section \<open>The confirm step\<close>

text \<open>
  C2. In every reachable state of the page in the confirm phase there is a detected
  bottle, and a confirm trigger whose classification returns \<^verbatim>\<open>isDeposited\<close> true makes
  exactly one more call to \<^verbatim>\<open>addBottle\<close>, with the \<^verbatim>\<open>type\<close> of that detected bottle (whatever
  suggestions the confirm result carries) and size 0, and ends in the done phase with no
  error.
\<close>

theorem confirm_records_detected_bottle:
  assumes "reachable p"
    and "validationStep (state p) = Confirm"
    and "captureFrame r = Inr uri"
    and "classify \<lparr>photoDataUri = uri, inputValidationStep = step_confirm\<rparr> = Inr aiResult"
    and "isDeposited aiResult"
  shows "\<exists>bottle. detectedBottle (state p) = Some bottle
         \<and> addBottleCalls (handleConfirmDeposit r classify (state p))
             = addBottleCalls (state p) @ [(bottle_type bottle, 0)]
         \<and> validationStep (handleConfirmDeposit r classify (state p)) = Done
         \<and> error (handleConfirmDeposit r classify (state p)) = None"
proof -
  from assms(1) have "pageInvariant p" by (rule reachable_invariant)
  with assms(2) obtain bottle where "detectedBottle (state p) = Some bottle"
    by (auto simp: pageInvariant_def)
  with assms(3-5) show ?thesis
    by (simp add: handleConfirmDeposit_def confirm_begin_captured confirm_resume_deposited)
qed

theorem confirm_records_detected_bottle_witness:
  "reachable confirmingPage
   \<and> validationStep (state confirmingPage) = Confirm
   \<and> detectedBottle (state confirmingPage) = Some (DetectedBottle ''Coca-Cola'')
   \<and> captureFrame readyRefs = Inr ''data:image/jpeg;base64,AAAA''
   \<and> isDeposited depositedResult
   \<and> suggestions depositedResult = Some [Suggestion ''Pepsi'']
   \<and> addBottleCalls
        (handleConfirmDeposit readyRefs (answering (Inr depositedResult)) (state confirmingPage))
       = [(''Coca-Cola'', 0)]
   \<and> validationStep
        (handleConfirmDeposit readyRefs (answering (Inr depositedResult)) (state confirmingPage))
       = Done
   \<and> error
        (handleConfirmDeposit readyRefs (answering (Inr depositedResult)) (state confirmingPage))
       = None"
  using confirm_records_detected_bottle
    [of confirmingPage readyRefs "''data:image/jpeg;base64,AAAA''"
        "answering (Inr depositedResult)" depositedResult]
    reachable_confirmingPage
  by (simp add: answering_def captureFrame_readyRefs depositedResult_def confirmingPage_def)

text \<open>
  C5. From every reachable state of the page in the confirm phase, a confirm trigger whose
  classification returns \<^verbatim>\<open>isDeposited\<close> false stays in the confirm phase, leaves the
  detected bottle as it was (and there is one), sets the error to the message that the
  deposit is not confirmed, and records nothing. With the error set the page renders one
  button, Try Again: the confirm button cannot be clicked, and Try Again resets the
  session to the identify phase with no detected bottle and no error.
\<close>

theorem confirm_rejection_keeps_bottle_until_reset:
  assumes "reachable p"
    and "validationStep (state p) = Confirm"
    and "captureFrame r = Inr uri"
    and "classify \<lparr>photoDataUri = uri, inputValidationStep = step_confirm\<rparr> = Inr aiResult"
    and "\<not> isDeposited aiResult"
  shows "validationStep (handleConfirmDeposit r classify (state p)) = Confirm
         \<and> detectedBottle (handleConfirmDeposit r classify (state p)) = detectedBottle (state p)
         \<and> detectedBottle (state p) \<noteq> None
         \<and> error (handleConfirmDeposit r classify (state p)) = Some confirmRejected
         \<and> addBottleCalls (handleConfirmDeposit r classify (state p)) = addBottleCalls (state p)
         \<and> renderScannerContent (handleConfirmDeposit r classify (state p)) = [(TryAgain, False)]
         \<and> clickable (handleConfirmDeposit r classify (state p)) c = (c = TryAgain)
         \<and> session (handleResetScanner (handleConfirmDeposit r classify (state p)))
             = (Identify, None, None)"
proof -
  from assms(1) have "pageInvariant p" by (rule reachable_invariant)
  with assms(2) obtain bottle where "detectedBottle (state p) = Some bottle"
    by (auto simp: pageInvariant_def)
  with assms(2-5) show ?thesis
    by (auto simp add: handleConfirmDeposit_def confirm_begin_captured confirm_resume_rejected
        renderScannerContent_def clickable_def confirmRejected_def session_def reset_state)
qed

theorem confirm_rejection_keeps_bottle_until_reset_witness:
  "reachable confirmingPage
   \<and> validationStep (state confirmingPage) = Confirm
   \<and> captureFrame readyRefs = Inr ''data:image/jpeg;base64,AAAA''
   \<and> \<not> isDeposited notDepositedResult
   \<and> handleConfirmDeposit readyRefs (answering (Inr notDepositedResult)) (state confirmingPage)
       = state rejectedPage
   \<and> validationStep (state rejectedPage) = Confirm
   \<and> detectedBottle (state rejectedPage) = Some (DetectedBottle ''Coca-Cola'')
   \<and> error (state rejectedPage)
       = Some ''Deposit not confirmed. Please ensure the bottle goes into the bin clearly.''
   \<and> addBottleCalls (state rejectedPage) = []
   \<and> renderScannerContent (state rejectedPage) = [(TryAgain, False)]
   \<and> \<not> clickable (state rejectedPage) ConfirmDeposit
   \<and> session (handleResetScanner (state rejectedPage)) = (Identify, None, None)"
proof -
  have h: "handleConfirmDeposit readyRefs (answering (Inr notDepositedResult))
             (state confirmingPage) = state rejectedPage"
    by (simp add: handleConfirmDeposit_def answering_def confirmingPage_def rejectedPage_def
        notDepositedResult_def confirm_begin_captured[OF _ captureFrame_readyRefs]
        confirm_resume_rejected)
  show ?thesis
    using confirm_rejection_keeps_bottle_until_reset
      [of confirmingPage readyRefs "''data:image/jpeg;base64,AAAA''"
          "answering (Inr notDepositedResult)" notDepositedResult ConfirmDeposit]
      reachable_confirmingPage
    unfolding h
    by (simp add: answering_def captureFrame_readyRefs notDepositedResult_def
        confirmingPage_def rejectedPage_def confirmRejected_def)
qed

text \<open>
  A run of the page: a bottle is identified, the confirm step is rejected. The detected
  bottle is still there, but a click on the confirm button cannot happen; the one button
  rendered is Try Again, and clicking it drops the bottle and returns to the identify
  phase.
\<close>

theorem confirm_retry_counterexample:
  "run [CameraPermission True, Click ScanBottle readyRefs, Settle 0 (Inr colaResult),
        Click ConfirmDeposit readyRefs, Settle 0 (Inr notDepositedResult)] initialPage
     = Some rejectedPage
   \<and> detectedBottle (state rejectedPage) = Some (DetectedBottle ''Coca-Cola'')
   \<and> fire (Click ConfirmDeposit readyRefs) rejectedPage = None
   \<and> renderScannerContent (state rejectedPage) = [(TryAgain, False)]
   \<and> map_option state (fire (Click TryAgain readyRefs) rejectedPage)
       = Some ((state rejectedPage)
           \<lparr>error := None, detectedBottle := None, validationStep := Identify\<rparr>)"
proof -
  have a: "run [CameraPermission True, Click ScanBottle readyRefs] initialPage = Some scanningPage"
    by (rule run_scanningPage)
  have b: "run [Settle 0 (Inr colaResult)] scanningPage = Some confirmingPage"
    by (rule run_confirmingPage)
  have c: "run [Click ConfirmDeposit readyRefs, Settle 0 (Inr notDepositedResult)] confirmingPage
     = Some rejectedPage" by (rule run_rejectedPage)
  have "run ([CameraPermission True, Click ScanBottle readyRefs] @ [Settle 0 (Inr colaResult)]
          @ [Click ConfirmDeposit readyRefs, Settle 0 (Inr notDepositedResult)]) initialPage
     = Some rejectedPage"
    by (simp only: run_append a b c option.case)
  then have "run [CameraPermission True, Click ScanBottle readyRefs, Settle 0 (Inr colaResult),
        Click ConfirmDeposit readyRefs, Settle 0 (Inr notDepositedResult)] initialPage
     = Some rejectedPage"
    by (simp only: append.simps)
  then show ?thesis
    by (simp add: rejectedPage_def clickable_def renderScannerContent_def confirmRejected_def
        reset_state)
qed

text \<open>
  C10. In every reachable state of the page in the confirm phase \<^verbatim>\<open>detectedBottle\<close> is set;
  and \<^verbatim>\<open>handleConfirmDeposit\<close> invoked in a state without a detected bottle returns at once:
  the state is unchanged, no call is started, nothing is recorded.
\<close>

theorem confirming_has_bottle_and_confirm_needs_one:
  "(reachable p \<longrightarrow> validationStep (state p) = Confirm \<longrightarrow> detectedBottle (state p) \<noteq> None)
   \<and> (detectedBottle s = None \<longrightarrow>
        handleConfirmDeposit_begin r s = (s, None) \<and> handleConfirmDeposit r classify s = s)"
  using reachable_invariant[of p]
  by (simp add: pageInvariant_def handleConfirmDeposit_def confirm_begin_no_bottle)

theorem confirming_has_bottle_and_confirm_needs_one_witness:
  "reachable confirmingPage
   \<and> validationStep (state confirmingPage) = Confirm
   \<and> detectedBottle (state confirmingPage) = Some (DetectedBottle ''Coca-Cola'')
   \<and> detectedBottle initialState = None
   \<and> handleConfirmDeposit_begin readyRefs initialState = (initialState, None)
   \<and> handleConfirmDeposit readyRefs (answering (Inr depositedResult)) initialState
       = initialState"
  using confirming_has_bottle_and_confirm_needs_one
    [of confirmingPage initialState readyRefs "answering (Inr depositedResult)"]
    reachable_confirmingPage
  by (simp add: confirmingPage_def initialState_def)

section \<open>Reset\<close>

text \<open>
  C6. From any state of the page, whatever its phase, detected bottle and error,
  \<^verbatim>\<open>handleResetScanner\<close> gives the session (Identifying, no label, no error); a second reset
  changes nothing.
\<close>

theorem reset_yields_initial_session:
  "session (handleResetScanner s) = (Identify, None, None)
   \<and> handleResetScanner (handleResetScanner s) = handleResetScanner s"
  by (simp add: session_def handleResetScanner_def)

section \<open>A reset and an outstanding call\<close>



section \<open>The gateway\<close>

text \<open>
  C8. A call of \<^verbatim>\<open>suggestBottleType\<close> fails exactly when the service is unreachable, times
  out, or replies with something the output schema rejects; and it issues exactly one
  request, to the prompt of the requested step with the photo of the input, after the
  requests issued before.
\<close>

theorem classify_fails_exactly_on_service_failure:
  assumes "prompt = (if inputValidationStep input = step_identify
                     then identifyBottlePrompt else confirmDepositPrompt)"
  shows "((\<exists>e. fst (suggestBottleType svc input reqs) = Inl e) \<longleftrightarrow>
            svc prompt (photoDataUri input) = Unreachable
            \<or> svc prompt (photoDataUri input) = TimedOut
            \<or> (\<exists>j. svc prompt (photoDataUri input) = Replied j
                    \<and> SuggestBottleTypeOutputSchema j = None))
         \<and> snd (suggestBottleType svc input reqs) = reqs @ [(prompt, photoDataUri input)]"
  unfolding suggestBottleType_def flow_one_call assms fst_conv snd_conv
  using flowOutput_fails by simp

theorem classify_fails_exactly_on_service_failure_witness:
  "fst (suggestBottleType failingService
          \<lparr>photoDataUri = ''offline'', inputValidationStep = step_identify\<rparr> []) = Inl ServiceUnreachable
   \<and> snd (suggestBottleType failingService
          \<lparr>photoDataUri = ''offline'', inputValidationStep = step_identify\<rparr> [])
       = [(identifyBottlePrompt, ''offline'')]
   \<and> fst (suggestBottleType failingService
          \<lparr>photoDataUri = ''slow'', inputValidationStep = step_confirm\<rparr> []) = Inl ServiceTimeout
   \<and> snd (suggestBottleType failingService
          \<lparr>photoDataUri = ''slow'', inputValidationStep = step_confirm\<rparr>
          [(identifyBottlePrompt, ''offline'')])
       = [(identifyBottlePrompt, ''offline''), (confirmDepositPrompt, ''slow'')]
   \<and> (\<exists>e. fst (suggestBottleType failingService
          \<lparr>photoDataUri = ''data:image/jpeg;base64,AAAA'', inputValidationStep = step_identify\<rparr> [])
        = Inl e)
   \<and> \<not> (\<exists>e. fst (suggestBottleType obligingService
          \<lparr>photoDataUri = ''data:image/jpeg;base64,AAAA'', inputValidationStep = step_identify\<rparr> [])
        = Inl e)"
  using classify_fails_exactly_on_service_failure
    [of identifyBottlePrompt "\<lparr>photoDataUri = ''offline'', inputValidationStep = step_identify\<rparr>"
        failingService "[]"]
    classify_fails_exactly_on_service_failure
    [of confirmDepositPrompt "\<lparr>photoDataUri = ''slow'', inputValidationStep = step_confirm\<rparr>"
        failingService "[(identifyBottlePrompt, ''offline'')]"]
    classify_fails_exactly_on_service_failure
    [of identifyBottlePrompt
        "\<lparr>photoDataUri = ''data:image/jpeg;base64,AAAA'', inputValidationStep = step_identify\<rparr>"
        failingService "[]"]
    classify_fails_exactly_on_service_failure
    [of identifyBottlePrompt
        "\<lparr>photoDataUri = ''data:image/jpeg;base64,AAAA'', inputValidationStep = step_identify\<rparr>"
        obligingService "[]"]
  by (simp add: failingService_def obligingService_def depositedDuringIdentify_def
      suggestBottleType_def flow_one_call)

text \<open>
  C9. Whenever the service replies with something the output schema accepts,
  \<^verbatim>\<open>suggestBottleType\<close> returns the parsed output as it is, for either step: an
  \<^verbatim>\<open>isDeposited\<close> of true survives the identify step, an \<^verbatim>\<open>isPlasticBottle\<close> of true and a
  non-empty \<^verbatim>\<open>suggestions\<close> array survive the confirm step.
\<close>

theorem classify_returns_parsed_output_unchanged:
  assumes "prompt = (if inputValidationStep input = step_identify
                     then identifyBottlePrompt else confirmDepositPrompt)"
    and "svc prompt (photoDataUri input) = Replied j"
    and "SuggestBottleTypeOutputSchema j = Some out"
  shows "fst (suggestBottleType svc input reqs) = Inr out"
  using assms by (simp add: suggestBottleType_def flow_one_call)

theorem classify_returns_parsed_output_unchanged_witness:
  "fst (suggestBottleType obligingService
          \<lparr>photoDataUri = ''data:image/jpeg;base64,AAAA'', inputValidationStep = step_identify\<rparr> [])
     = Inr \<lparr>suggestions = Some [Suggestion ''Coca-Cola''], isPlasticBottle = True,
            isDeposited = True\<rparr>
   \<and> fst (suggestBottleType obligingService
          \<lparr>photoDataUri = ''data:image/jpeg;base64,AAAA'', inputValidationStep = step_confirm\<rparr> [])
     = Inr \<lparr>suggestions = Some [Suggestion ''Pepsi''], isPlasticBottle = True,
            isDeposited = False\<rparr>"
  using classify_returns_parsed_output_unchanged
    [of identifyBottlePrompt
        "\<lparr>photoDataUri = ''data:image/jpeg;base64,AAAA'', inputValidationStep = step_identify\<rparr>"
        obligingService depositedDuringIdentify
        "\<lparr>suggestions = Some [Suggestion ''Coca-Cola''], isPlasticBottle = True,
          isDeposited = True\<rparr>" "[]"]
    classify_returns_parsed_output_unchanged
    [of confirmDepositPrompt
        "\<lparr>photoDataUri = ''data:image/jpeg;base64,AAAA'', inputValidationStep = step_confirm\<rparr>"
        obligingService bottleDuringConfirm
        "\<lparr>suggestions = Some [Suggestion ''Pepsi''], isPlasticBottle = True,
          isDeposited = False\<rparr>" "[]"]
  by (simp add: obligingService_def depositedDuringIdentify_def bottleDuringConfirm_def)

end
